theory Spec2Isabelle
  imports Complex_Main
begin

section \<open>G-code rapid-move converter: data model\<close>

text \<open>
  The embedding follows \<^verbatim>\<open>src/converter.py\<close>. Python floats are modelled as
  \<^typ>\<open>real\<close> (no rounding, no infinities), Python ints as \<^typ>\<open>int\<close>, and a
  Python \<^verbatim>\<open>str\<close> as a \<^typ>\<open>string\<close> whose characters are the code points
  below 256. The character classes below are the ones Python's \<^verbatim>\<open>re\<close> module and
  \<^verbatim>\<open>str.strip\<close> use on that range.
\<close>

record MachineState =
  st_x :: real
  st_y :: real
  st_z :: real
  current_g :: "int option"
  feed_rate :: "real option"
  spindle_speed :: "int option"
  absolute_mode :: bool
  units_mm :: bool
  plane :: string
  work_coordinate :: string
  total_time_seconds :: real

definition MachineState_init :: MachineState where
  "MachineState_init =
     \<lparr>st_x = 0, st_y = 0, st_z = 0, current_g = None, feed_rate = None,
      spindle_speed = None, absolute_mode = True, units_mm = True,
      plane = ''XY'', work_coordinate = ''G54'', total_time_seconds = 0\<rparr>"

datatype line_type = Empty | Command

text \<open>The dictionary returned by \<^verbatim>\<open>parse_line\<close>: a key is present iff its field is \<open>Some\<close>.\<close>

record parsed =
  p_type :: line_type
  p_original :: string
  p_G :: "int option"
  p_M :: "int option"
  p_X :: "real option"
  p_Y :: "real option"
  p_Z :: "real option"
  p_I :: "real option"
  p_J :: "real option"
  p_K :: "real option"
  p_R :: "real option"
  p_F :: "real option"
  p_S :: "int option"

text \<open>The dictionary appended to \<^verbatim>\<open>move_history\<close>.\<close>

record move_info =
  mv_type :: string
  mv_from :: "real \<times> real \<times> real"
  mv_to :: "real \<times> real \<times> real"
  mv_feed_rate :: "real option"
  mv_distance :: real
  mv_time_s :: real

record GCodeSimulator =
  state :: MachineState
  move_history :: "move_info list"
  rapid_traverse_rate :: real

definition GCodeSimulator_init :: "real \<Rightarrow> GCodeSimulator" where
  "GCodeSimulator_init rapid_rate =
     \<lparr>state = MachineState_init, move_history = [], rapid_traverse_rate = rapid_rate\<rparr>"

record GCodeConverter =
  z_safe :: real
  conservative :: bool
  simulator :: GCodeSimulator

definition GCodeConverter_init :: "real \<Rightarrow> bool \<Rightarrow> real \<Rightarrow> GCodeConverter" where
  "GCodeConverter_init zs cons rapid_rate =
     \<lparr>z_safe = zs, conservative = cons, simulator = GCodeSimulator_init rapid_rate\<rparr>"

text \<open>The entries of the \<^verbatim>\<open>conversions\<close> list.\<close>

record conversion =
  cv_line_num :: nat
  cv_original :: string
  cv_converted :: string
  cv_z_position :: real

section \<open>Character classes and string helpers\<close>

text \<open>\<^verbatim>\<open>str.isspace\<close>, which is also the class \<^verbatim>\<open>\s\<close> of \<^verbatim>\<open>re\<close>.\<close>

definition is_space :: "char \<Rightarrow> bool" where
  "is_space c = (of_char c \<in> {9, 10, 11, 12, 13, 28, 29, 30, 31, 32, 133, 160 :: nat})"

text \<open>The class \<^verbatim>\<open>\d\<close>.\<close>

definition is_digit :: "char \<Rightarrow> bool" where
  "is_digit c = (48 \<le> (of_char c :: nat) \<and> (of_char c :: nat) \<le> 57)"

text \<open>The class \<^verbatim>\<open>\w\<close>: alphanumeric characters and the underscore.\<close>

definition is_word :: "char \<Rightarrow> bool" where
  "is_word c =
     (let n = (of_char c :: nat) in
        (48 \<le> n \<and> n \<le> 57) \<or> (65 \<le> n \<and> n \<le> 90) \<or> n = 95 \<or> (97 \<le> n \<and> n \<le> 122)
        \<or> n \<in> {170, 178, 179, 181, 185, 186, 188, 189, 190}
        \<or> (192 \<le> n \<and> n \<le> 214) \<or> (216 \<le> n \<and> n \<le> 246) \<or> (248 \<le> n \<and> n \<le> 255))"

text \<open>An upper-case ASCII letter of a pattern compiled with \<^verbatim>\<open>re.IGNORECASE\<close>.\<close>

definition ci_match :: "char \<Rightarrow> char \<Rightarrow> bool" where
  "ci_match u c = (c = u \<or> (of_char c :: nat) = of_char u + 32)"

abbreviation newline :: char where
  "newline \<equiv> CHR 0x0A"

text \<open>\<^verbatim>\<open>str.strip()\<close> and \<^verbatim>\<open>str.endswith('\n')\<close>.\<close>

definition py_strip :: "string \<Rightarrow> string" where
  "py_strip s = rev (dropWhile is_space (rev (dropWhile is_space s)))"

definition ends_nl :: "string \<Rightarrow> bool" where
  "ends_nl s = (s \<noteq> [] \<and> last s = newline)"

text \<open>\<^verbatim>\<open>int\<close> of a string of decimal digits.\<close>

definition digit_val :: "char \<Rightarrow> nat" where
  "digit_val c = of_char c - 48"

definition nat_of_digits :: "string \<Rightarrow> nat" where
  "nat_of_digits ds = foldl (\<lambda>a c. 10 * a + digit_val c) 0 ds"

definition int_of_digits :: "string \<Rightarrow> int" where
  "int_of_digits ds = int (nat_of_digits ds)"

text \<open>
  \<^verbatim>\<open>float\<close> of a text matched by \<^verbatim>\<open>[-+]?\d*\.?\d+\<close>: the exact decimal value.
\<close>

definition float_of :: "string \<Rightarrow> real" where
  "float_of s =
     (let neg = (s \<noteq> [] \<and> hd s = CHR ''-'');
          t = (if s \<noteq> [] \<and> (hd s = CHR ''-'' \<or> hd s = CHR ''+'') then tl s else s);
          ip = takeWhile is_digit t;
          fp = (case dropWhile is_digit t of [] \<Rightarrow> [] | c # cs \<Rightarrow> cs);
          v = real (nat_of_digits ip) + real (nat_of_digits fp) / 10 ^ length fp
      in if neg then - v else v)"

section \<open>The line parser\<close>

text \<open>
  \<^verbatim>\<open>re.sub(r'\(.*?\)', '', line)\<close>: from an opening parenthesis to the nearest closing
  one, unless a newline comes first (the dot does not match it).
\<close>

fun find_close :: "string \<Rightarrow> string option" where
  "find_close [] = None"
| "find_close (c # cs) =
     (if c = CHR '')'' then Some cs else if c = newline then None else find_close cs)"

lemma find_close_length: "find_close cs = Some r \<Longrightarrow> length r < Suc (length cs)"
  by (induction cs) (auto split: if_splits)

function remove_paren :: "string \<Rightarrow> string" where
  "remove_paren [] = []"
| "remove_paren (c # cs) =
     (if c = CHR ''(''
      then (case find_close cs of Some r \<Rightarrow> remove_paren r | None \<Rightarrow> c # remove_paren cs)
      else c # remove_paren cs)"
  by pat_completeness auto
termination
  by (relation "measure length") (auto dest: find_close_length)

text \<open>
  \<^verbatim>\<open>re.sub(r';.*$', '', line)\<close>: from a semicolon to the end of the string, or to a
  newline that is the last character; a semicolon with a newline elsewhere after it
  does not match.
\<close>

definition semi_tail_ok :: "string \<Rightarrow> bool" where
  "semi_tail_ok cs =
     (let u = dropWhile (\<lambda>c. c \<noteq> newline) cs in u = [] \<or> u = [newline])"

fun remove_semicolon :: "string \<Rightarrow> string" where
  "remove_semicolon [] = []"
| "remove_semicolon (c # cs) =
     (if c = CHR '';'' \<and> semi_tail_ok cs then dropWhile (\<lambda>c. c \<noteq> newline) cs
      else c # remove_semicolon cs)"

text \<open>
  A match of \<^verbatim>\<open>[-+]?\d*\.?\d+\<close> at the start of a string: the matched text and the
  rest. With backtracking the pattern matches an optional sign and then either
  digits, a dot and at least one digit, or at least one digit.
\<close>

definition match_number :: "string \<Rightarrow> (string \<times> string) option" where
  "match_number t =
     (let sgn = (if t \<noteq> [] \<and> (hd t = CHR ''-'' \<or> hd t = CHR ''+'') then [hd t] else []);
          t1 = (if t \<noteq> [] \<and> (hd t = CHR ''-'' \<or> hd t = CHR ''+'') then tl t else t);
          d1 = takeWhile is_digit t1;
          r1 = dropWhile is_digit t1
      in if r1 \<noteq> [] \<and> hd r1 = CHR ''.'' \<and> takeWhile is_digit (tl r1) \<noteq> []
         then Some (sgn @ d1 @ ''.'' @ takeWhile is_digit (tl r1), dropWhile is_digit (tl r1))
         else if d1 \<noteq> [] then Some (sgn @ d1, r1)
         else None)"

text \<open>\<^verbatim>\<open>re.search\<close> of a letter followed by a number: group 1 of the first match.\<close>

fun search_number :: "char \<Rightarrow> string \<Rightarrow> string option" where
  "search_number L [] = None"
| "search_number L (c # cs) =
     (if ci_match L c
      then (case match_number cs of Some (m, r) \<Rightarrow> Some m | None \<Rightarrow> search_number L cs)
      else search_number L cs)"

text \<open>\<^verbatim>\<open>re.search\<close> of a letter followed by \<^verbatim>\<open>(\d+)\<close>: the digits of the first match.\<close>

fun search_digits :: "char \<Rightarrow> string \<Rightarrow> string option" where
  "search_digits L [] = None"
| "search_digits L (c # cs) =
     (if ci_match L c \<and> takeWhile is_digit cs \<noteq> [] then Some (takeWhile is_digit cs)
      else search_digits L cs)"

text \<open>
  Group 1 of \<^verbatim>\<open>G0*(\d+)\<close> on a run of digits: the greedy \<^verbatim>\<open>0*\<close> takes the leading
  zeros and gives one back when nothing else is left.
\<close>

definition strip_zeros :: "string \<Rightarrow> string" where
  "strip_zeros ds =
     (let nz = dropWhile (\<lambda>c. c = CHR ''0'') ds in if nz = [] then ''0'' else nz)"

definition empty_parsed :: parsed where
  "empty_parsed =
     \<lparr>p_type = Empty, p_original = [], p_G = None, p_M = None, p_X = None, p_Y = None,
      p_Z = None, p_I = None, p_J = None, p_K = None, p_R = None, p_F = None, p_S = None\<rparr>"

definition parse_line :: "string \<Rightarrow> parsed" where
  "parse_line line0 =
     (let line = py_strip (remove_semicolon (remove_paren (py_strip line0))) in
      if line = [] then empty_parsed
      else
        \<lparr>p_type = Command, p_original = line,
         p_G = map_option (int_of_digits \<circ> strip_zeros) (search_digits CHR ''G'' line),
         p_M = map_option int_of_digits (search_digits CHR ''M'' line),
         p_X = map_option float_of (search_number CHR ''X'' line),
         p_Y = map_option float_of (search_number CHR ''Y'' line),
         p_Z = map_option float_of (search_number CHR ''Z'' line),
         p_I = map_option float_of (search_number CHR ''I'' line),
         p_J = map_option float_of (search_number CHR ''J'' line),
         p_K = map_option float_of (search_number CHR ''K'' line),
         p_R = map_option float_of (search_number CHR ''R'' line),
         p_F = map_option float_of (search_number CHR ''F'' line),
         p_S = map_option int_of_digits (search_digits CHR ''S'' line)\<rparr>)"

section \<open>The simulator on a parsed line\<close>

text \<open>The \<^verbatim>\<open>if 'G' in parsed\<close> chain of \<^verbatim>\<open>execute_line\<close> (modal settings).\<close>

definition update_modal :: "int \<Rightarrow> MachineState \<Rightarrow> MachineState" where
  "update_modal g s =
     (if g \<in> {0, 1, 2, 3} then s\<lparr>current_g := Some g\<rparr>
      else if g = 90 then s\<lparr>absolute_mode := True\<rparr>
      else if g = 91 then s\<lparr>absolute_mode := False\<rparr>
      else if g = 21 then s\<lparr>units_mm := True\<rparr>
      else if g = 20 then s\<lparr>units_mm := False\<rparr>
      else if g = 17 then s\<lparr>plane := ''XY''\<rparr>
      else if g = 18 then s\<lparr>plane := ''XZ''\<rparr>
      else if g = 19 then s\<lparr>plane := ''YZ''\<rparr>
      else if g = 54 then s\<lparr>work_coordinate := ''G54''\<rparr>
      else if g = 55 then s\<lparr>work_coordinate := ''G55''\<rparr>
      else if g = 56 then s\<lparr>work_coordinate := ''G56''\<rparr>
      else if g = 57 then s\<lparr>work_coordinate := ''G57''\<rparr>
      else if g = 58 then s\<lparr>work_coordinate := ''G58''\<rparr>
      else if g = 59 then s\<lparr>work_coordinate := ''G59''\<rparr>
      else s)"

definition update_settings :: "parsed \<Rightarrow> MachineState \<Rightarrow> MachineState" where
  "update_settings p s =
     (let s1 = (case p_G p of Some g \<Rightarrow> update_modal g s | None \<Rightarrow> s);
          s2 = (case p_F p of Some f \<Rightarrow> s1\<lparr>feed_rate := Some f\<rparr> | None \<Rightarrow> s1)
      in (case p_S p of Some v \<Rightarrow> s2\<lparr>spindle_speed := Some v\<rparr> | None \<Rightarrow> s2))"

text \<open>One axis of the new position: the field if absolute, current plus field if relative.\<close>

definition new_coord :: "bool \<Rightarrow> real \<Rightarrow> real option \<Rightarrow> real" where
  "new_coord absolute cur fld =
     (case fld of None \<Rightarrow> cur | Some v \<Rightarrow> if absolute then v else cur + v)"

definition rate_per_minute :: "GCodeSimulator \<Rightarrow> MachineState \<Rightarrow> real" where
  "rate_per_minute sim s =
     (if current_g s = Some 0 then rapid_traverse_rate sim
      else if current_g s \<in> {Some 1, Some 2, Some 3}
        then (case feed_rate s of Some f \<Rightarrow> f | None \<Rightarrow> 1)
      else 0)"

definition time_in_seconds :: "real \<Rightarrow> real \<Rightarrow> real" where
  "time_in_seconds distance rate = (if rate > 0 then distance / rate else 0) * 60"

text \<open>The \<^verbatim>\<open># Execute motion\<close> block; \<open>s\<close> is the state after the modal updates.\<close>

definition execute_motion ::
  "parsed \<Rightarrow> GCodeSimulator \<Rightarrow> MachineState \<Rightarrow> GCodeSimulator \<times> move_info option" where
  "execute_motion p sim s =
     (if current_g s \<in> {Some 0, Some 1, Some 2, Some 3} then
        (let new_x = new_coord (absolute_mode s) (st_x s) (p_X p);
             new_y = new_coord (absolute_mode s) (st_y s) (p_Y p);
             new_z = new_coord (absolute_mode s) (st_z s) (p_Z p)
         in if new_x \<noteq> st_x s \<or> new_y \<noteq> st_y s \<or> new_z \<noteq> st_z s then
              (let dx = new_x - st_x s; dy = new_y - st_y s; dz = new_z - st_z s;
                   distance = sqrt (dx\<^sup>2 + dy\<^sup>2 + dz\<^sup>2);
                   t = time_in_seconds distance (rate_per_minute sim s);
                   info = \<lparr>mv_type = (if current_g s = Some 0 then ''rapid'' else ''feed''),
                           mv_from = (st_x s, st_y s, st_z s),
                           mv_to = (new_x, new_y, new_z),
                           mv_feed_rate = (if current_g s \<noteq> Some 0 then feed_rate s else None),
                           mv_distance = distance,
                           mv_time_s = t\<rparr>
               in (sim\<lparr>state := s\<lparr>total_time_seconds := total_time_seconds s + t,
                                    st_x := new_x, st_y := new_y, st_z := new_z\<rparr>,
                        move_history := move_history sim @ [info]\<rparr>,
                   Some info))
            else (sim\<lparr>state := s\<rparr>, None))
      else (sim\<lparr>state := s\<rparr>, None))"

text \<open>\<^verbatim>\<open>execute_line\<close> after its first statement: the G10 probe reset, else settings and motion.\<close>

definition execute_parsed ::
  "parsed \<Rightarrow> GCodeSimulator \<Rightarrow> GCodeSimulator \<times> move_info option" where
  "execute_parsed p sim =
     (if p_G p = Some 10 \<and> p_Z p \<noteq> None
      then (sim\<lparr>state := (state sim)\<lparr>st_z := the (p_Z p)\<rparr>\<rparr>, None)
      else execute_motion p sim (update_settings p (state sim)))"

section \<open>The conversion decision\<close>

definition should_convert_to_rapid :: "GCodeConverter \<Rightarrow> parsed \<Rightarrow> MachineState \<Rightarrow> bool" where
  "should_convert_to_rapid cv p s =
     (let g = (case p_G p of Some v \<Rightarrow> Some v | None \<Rightarrow> current_g s) in
      if g \<noteq> Some 1 then False
      else if \<not> (p_X p \<noteq> None \<or> p_Y p \<noteq> None \<or> p_Z p \<noteq> None) then False
      else
        (let target_z = new_coord (absolute_mode s) (st_z s) (p_Z p) in
         if st_z s \<ge> z_safe cv \<and> target_z \<ge> z_safe cv then
           (if conservative cv \<and> p_Z p = None then True
            else if p_Z p \<noteq> None \<and> target_z \<ge> st_z s then True
            else if \<not> conservative cv then True
            else False)
         else False))"

section \<open>Executing and rewriting a line of text\<close>

definition execute_line :: "GCodeSimulator \<Rightarrow> string \<Rightarrow> GCodeSimulator \<times> move_info option" where
  "execute_line sim line = execute_parsed (parse_line line) sim"

text \<open>\<^verbatim>\<open>re.search(r'\bG0*\d+', stripped, re.IGNORECASE)\<close>; \<open>pw\<close>: the previous character is a word character.\<close>

fun has_g_from :: "bool \<Rightarrow> string \<Rightarrow> bool" where
  "has_g_from pw [] = False"
| "has_g_from pw (c # cs) =
     (if \<not> pw \<and> ci_match CHR ''G'' c \<and> cs \<noteq> [] \<and> is_digit (hd cs) then True
      else has_g_from (is_word c) cs)"

definition has_g_command :: "string \<Rightarrow> bool" where
  "has_g_command s = has_g_from False s"

text \<open>
  \<^verbatim>\<open>re.sub(r'\bG0*1\b', 'G0', stripped, flags=re.IGNORECASE)\<close>. After the letter:
  zeros, a one, and then the end of the string or a non-word character.
\<close>

definition match_G1_tail :: "string \<Rightarrow> string option" where
  "match_G1_tail cs =
     (let r = dropWhile (\<lambda>c. c = CHR ''0'') cs in
      if r \<noteq> [] \<and> hd r = CHR ''1'' \<and> (tl r = [] \<or> \<not> is_word (hd (tl r)))
      then Some (tl r) else None)"

lemma match_G1_tail_length: "match_G1_tail cs = Some r \<Longrightarrow> length r < Suc (length cs)"
proof -
  assume "match_G1_tail cs = Some r"
  then have "r = tl (dropWhile (\<lambda>c. c = CHR ''0'') cs)"
    by (auto simp: match_G1_tail_def Let_def split: if_splits)
  moreover have "length (dropWhile (\<lambda>c. c = CHR ''0'') cs) \<le> length cs"
    by (rule length_dropWhile_le)
  ultimately show ?thesis by simp
qed

function sub_G1 :: "bool \<Rightarrow> string \<Rightarrow> string" where
  "sub_G1 pw [] = []"
| "sub_G1 pw (c # cs) =
     (if \<not> pw \<and> ci_match CHR ''G'' c
      then (case match_G1_tail cs of
              Some r \<Rightarrow> ''G0'' @ sub_G1 True r
            | None \<Rightarrow> c # sub_G1 (is_word c) cs)
      else c # sub_G1 (is_word c) cs)"
  by pat_completeness auto
termination
  by (relation "measure (\<lambda>(pw, s). length s)") (auto dest: match_G1_tail_length)

text \<open>
  \<^verbatim>\<open>re.sub(r'\s*F[-+]?\d*\.?\d+', '', new_line, flags=re.IGNORECASE)\<close>: \<open>match_F\<close>
  is a match at the start of the string and returns what follows it.
\<close>

definition match_F :: "string \<Rightarrow> string option" where
  "match_F s =
     (let t = dropWhile is_space s in
      if t \<noteq> [] \<and> ci_match CHR ''F'' (hd t) then map_option snd (match_number (tl t)) else None)"

lemma match_number_length: "match_number t = Some (m, r) \<Longrightarrow> length r \<le> length t"
proof -
  assume a: "match_number t = Some (m, r)"
  define t1 where "t1 = (if t \<noteq> [] \<and> (hd t = CHR ''-'' \<or> hd t = CHR ''+'') then tl t else t)"
  have l1: "length t1 \<le> length t" by (simp add: t1_def)
  have l2: "length (dropWhile is_digit t1) \<le> length t1" by (rule length_dropWhile_le)
  have l3: "length (dropWhile is_digit (tl (dropWhile is_digit t1))) \<le> length (dropWhile is_digit t1)"
    by (rule order_trans [OF length_dropWhile_le]) simp
  from a have "r = dropWhile is_digit t1 \<or> r = dropWhile is_digit (tl (dropWhile is_digit t1))"
    by (auto simp: match_number_def Let_def t1_def split: if_splits)
  with l1 l2 l3 show ?thesis by auto
qed

lemma match_F_length: "match_F s = Some r \<Longrightarrow> length r < length s"
proof -
  assume a: "match_F s = Some r"
  define t where "t = dropWhile is_space s"
  from a have ne: "t \<noteq> []" and "map_option snd (match_number (tl t)) = Some r"
    by (auto simp: match_F_def Let_def t_def split: if_splits)
  then obtain m where "match_number (tl t) = Some (m, r)" by auto
  then have "length r \<le> length (tl t)" by (rule match_number_length)
  moreover have "length (tl t) < length t" using ne by (cases t) auto
  moreover have "length t \<le> length s" unfolding t_def by (rule length_dropWhile_le)
  ultimately show ?thesis by simp
qed

function sub_F :: "string \<Rightarrow> string" where
  "sub_F [] = []"
| "sub_F (c # cs) =
     (case match_F (c # cs) of Some r \<Rightarrow> sub_F r | None \<Rightarrow> c # sub_F cs)"
  by pat_completeness auto
termination
  by (relation "measure length") (auto dest: match_F_length)

definition convert_line :: "GCodeConverter \<Rightarrow> string \<Rightarrow> MachineState \<Rightarrow> string \<times> bool" where
  "convert_line cv line s =
     (let stripped = py_strip line;
          parsed = parse_line stripped
      in if p_type parsed = Empty then (line, False)
         else if \<not> should_convert_to_rapid cv parsed s then (line, False)
         else
           (let new_line = (if has_g_command stripped then sub_G1 False stripped
                            else ''G0 '' @ stripped);
                new_line = sub_F new_line;
                new_line = (if ends_nl line then new_line @ [newline] else new_line)
            in (new_line, True)))"

section \<open>The pass over the lines of a file\<close>

text \<open>
  The variables of the loop of \<^verbatim>\<open>convert_file\<close>; \<open>ls_line_num\<close> is the number the
  next line gets from \<^verbatim>\<open>enumerate(lines, 1)\<close>. The loop changes only the simulator of
  the converter.
\<close>

record loop_state =
  ls_converter :: GCodeConverter
  ls_output_lines :: "string list"
  ls_conversions :: "conversion list"
  ls_was_prev_line_converted :: bool
  ls_line_num :: nat

definition is_motion :: "parsed \<Rightarrow> bool" where
  "is_motion p =
     (p_X p \<noteq> None \<or> p_Y p \<noteq> None \<or> p_Z p \<noteq> None \<or> p_I p \<noteq> None \<or> p_J p \<noteq> None \<or> p_K p \<noteq> None)"

text \<open>
  The test \<^verbatim>\<open>is_motion and has_no_g_code and was_prev_line_converted\<close> on the parse of
  the stripped line, and the line built when it holds.
\<close>

definition injects_g1 :: "bool \<Rightarrow> string \<Rightarrow> bool" where
  "injects_g1 prev line =
     (let parsed = parse_line (py_strip line) in is_motion parsed \<and> p_G parsed = None \<and> prev)"

definition g1_line :: "string \<Rightarrow> string" where
  "g1_line line = ''G1 '' @ py_strip line @ (if ends_nl line then [newline] else [])"

definition convert_step :: "loop_state \<Rightarrow> string \<Rightarrow> loop_state" where
  "convert_step ls line =
     (let cv = ls_converter ls;
          stripped_line = py_strip line;
          (new_line0, converted) = convert_line cv line (state (simulator cv));
          inject = (\<not> converted \<and> injects_g1 (ls_was_prev_line_converted ls) line);
          new_line = (if inject then g1_line line else new_line0);
          line_for_execution =
            (if inject then new_line else if converted then new_line0 else line);
          conversions =
            (if converted
             then ls_conversions ls @
                    [\<lparr>cv_line_num = ls_line_num ls, cv_original = stripped_line,
                      cv_converted = py_strip new_line,
                      cv_z_position = st_z (state (simulator cv))\<rparr>]
             else ls_conversions ls)
      in \<lparr>ls_converter = cv\<lparr>simulator := fst (execute_line (simulator cv) line_for_execution)\<rparr>,
          ls_output_lines = ls_output_lines ls @ [new_line],
          ls_conversions = conversions,
          ls_was_prev_line_converted = converted,
          ls_line_num = Suc (ls_line_num ls)\<rparr>)"

definition loop_init :: "GCodeConverter \<Rightarrow> loop_state" where
  "loop_init cv =
     \<lparr>ls_converter = cv, ls_output_lines = [], ls_conversions = [],
      ls_was_prev_line_converted = False, ls_line_num = 1\<rparr>"

definition convert_loop :: "loop_state \<Rightarrow> string list \<Rightarrow> loop_state" where
  "convert_loop ls lines = foldl convert_step ls lines"

text \<open>
  The body of \<^verbatim>\<open>convert_file\<close> between reading and writing, on the list that
  \<^verbatim>\<open>readlines\<close> returned: the returned dictionary, together with the output lines
  and the converter after the pass.
\<close>

record file_result =
  total_lines :: nat
  conversions :: "conversion list"
  result_move_history :: "move_info list"
  output_lines :: "string list"
  final_converter :: GCodeConverter

definition convert_lines :: "GCodeConverter \<Rightarrow> string list \<Rightarrow> file_result" where
  "convert_lines cv lines =
     (let ls = convert_loop (loop_init cv) lines in
      \<lparr>total_lines = length lines,
       conversions = ls_conversions ls,
       result_move_history = move_history (simulator (ls_converter ls)),
       output_lines = ls_output_lines ls,
       final_converter = ls_converter ls\<rparr>)"






section \<open>Observing the pass\<close>

text \<open>
  Names for what the statements below speak about: the line one iteration appends to
  \<^verbatim>\<open>output_lines\<close>, the loop variables when the pass reaches line \<open>i\<close> (counted from
  0), the simulator at that moment, and whether \<^verbatim>\<open>convert_line\<close> reports line \<open>i\<close> as
  converted.
\<close>

definition step_output :: "loop_state \<Rightarrow> string \<Rightarrow> string" where
  "step_output ls line =
     (let cv = ls_converter ls;
          (new_line0, converted) = convert_line cv line (state (simulator cv))
      in if \<not> converted \<and> injects_g1 (ls_was_prev_line_converted ls) line then g1_line line
         else new_line0)"

fun loop_outputs :: "loop_state \<Rightarrow> string list \<Rightarrow> string list" where
  "loop_outputs ls [] = []"
| "loop_outputs ls (l # rest) = step_output ls l # loop_outputs (convert_step ls l) rest"

definition before_line :: "GCodeConverter \<Rightarrow> string list \<Rightarrow> nat \<Rightarrow> loop_state" where
  "before_line cv lines i = convert_loop (loop_init cv) (take i lines)"

definition sim_before :: "GCodeConverter \<Rightarrow> string list \<Rightarrow> nat \<Rightarrow> GCodeSimulator" where
  "sim_before cv lines i = simulator (ls_converter (before_line cv lines i))"

definition converted_at :: "GCodeConverter \<Rightarrow> string list \<Rightarrow> nat \<Rightarrow> bool" where
  "converted_at cv lines i =
     snd (convert_line (ls_converter (before_line cv lines i)) (lines ! i)
            (state (sim_before cv lines i)))"

section \<open>Formulas as the specification words them\<close>



section \<open>Example inputs\<close>

text \<open>
  A line of text followed by a newline, or by a carriage return and a newline; and the
  simulator with the default rapid rate 5000 after the line \<^verbatim>\<open>G0 Z20\<close>, and after
  \<^verbatim>\<open>G0 Z25\<close> following it.
\<close>

definition with_nl :: "string \<Rightarrow> string" where
  "with_nl s = s @ [newline]"


definition sim_z20 :: GCodeSimulator where
  "sim_z20 =
     \<lparr>state = MachineState_init\<lparr>st_z := 20, current_g := Some 0, total_time_seconds := 6 / 25\<rparr>,
      move_history = [\<lparr>mv_type = ''rapid'', mv_from = (0, 0, 0), mv_to = (0, 0, 20),
                       mv_feed_rate = None, mv_distance = 20, mv_time_s = 6 / 25\<rparr>],
      rapid_traverse_rate = 5000\<rparr>"

definition sim_z25 :: GCodeSimulator where
  "sim_z25 =
     \<lparr>state = MachineState_init\<lparr>st_z := 25, current_g := Some 0, total_time_seconds := 3 / 10\<rparr>,
      move_history = [\<lparr>mv_type = ''rapid'', mv_from = (0, 0, 0), mv_to = (0, 0, 20),
                       mv_feed_rate = None, mv_distance = 20, mv_time_s = 6 / 25\<rparr>,
                      \<lparr>mv_type = ''rapid'', mv_from = (0, 0, 20), mv_to = (0, 0, 25),
                       mv_feed_rate = None, mv_distance = 5, mv_time_s = 3 / 50\<rparr>],
      rapid_traverse_rate = 5000\<rparr>"

section \<open>Basic facts about the simulator\<close>

lemma update_settings_pos [simp]:
  "st_x (update_settings p s) = st_x s" "st_y (update_settings p s) = st_y s"
  "st_z (update_settings p s) = st_z s"
  "total_time_seconds (update_settings p s) = total_time_seconds s"
  by (simp_all add: update_settings_def update_modal_def Let_def split: option.splits)

lemma execute_motion_Some:
  assumes "execute_motion p sim s = (sim', Some info)"
  shows "current_g (state sim') = current_g s" and "feed_rate (state sim') = feed_rate s"
    and "mv_from info = (st_x s, st_y s, st_z s)"
    and "mv_to info = (st_x (state sim'), st_y (state sim'), st_z (state sim'))"
    and "mv_distance info =
           sqrt ((st_x (state sim') - st_x s)\<^sup>2 + (st_y (state sim') - st_y s)\<^sup>2
                 + (st_z (state sim') - st_z s)\<^sup>2)"
    and "mv_time_s info = time_in_seconds (mv_distance info) (rate_per_minute sim s)"
    and "total_time_seconds (state sim') = total_time_seconds s + mv_time_s info"
    and "move_history sim' = move_history sim @ [info]"
    and "current_g s \<in> {Some 0, Some 1, Some 2, Some 3}"
    and "mv_type info = (if current_g s = Some 0 then ''rapid'' else ''feed'')"
    and "mv_feed_rate info = (if current_g s \<noteq> Some 0 then feed_rate s else None)"
    and "mv_from info \<noteq> mv_to info"
  using assms
  by (auto simp: execute_motion_def Let_def split: if_splits)

lemma execute_parsed_Some:
  assumes "execute_parsed p sim = (sim', Some info)"
  shows "execute_motion p sim (update_settings p (state sim)) = (sim', Some info)"
  using assms by (auto simp: execute_parsed_def split: if_splits)





section \<open>Facts about the string functions\<close>


lemma py_strip_Nil [simp]: "py_strip [] = []"
  by (simp add: py_strip_def)

lemma py_strip_last: "py_strip s \<noteq> [] \<Longrightarrow> \<not> is_space (last (py_strip s))"
proof -
  assume a: "py_strip s \<noteq> []"
  let ?v = "dropWhile is_space (rev (dropWhile is_space s))"
  from a have ne: "?v \<noteq> []" by (simp add: py_strip_def)
  then have "\<not> is_space (hd ?v)" by (rule hd_dropWhile)
  moreover have "last (py_strip s) = hd ?v"
    using ne by (simp add: py_strip_def last_rev)
  ultimately show ?thesis by simp
qed

lemma py_strip_hd: "py_strip s \<noteq> [] \<Longrightarrow> \<not> is_space (hd (py_strip s))"
proof -
  assume a: "py_strip s \<noteq> []"
  let ?u = "dropWhile is_space s"
  let ?v = "dropWhile is_space (rev ?u)"
  from a have ne: "?v \<noteq> []" by (simp add: py_strip_def)
  have une: "?u \<noteq> []"
  proof
    assume "?u = []"
    then have "?v = []" by (simp del: dropWhile_eq_Nil_conv)
    with ne show False by simp
  qed
  have "hd (py_strip s) = last ?v" using ne by (simp add: py_strip_def hd_rev)
  also have "last ?v = last (rev ?u)"
  proof -
    have "rev ?u = takeWhile is_space (rev ?u) @ ?v" by simp
    then have "last (rev ?u) = last (takeWhile is_space (rev ?u) @ ?v)" by simp
    also have "\<dots> = last ?v" using ne by (rule last_appendR)
    finally show ?thesis by simp
  qed
  also have "\<dots> = hd ?u" using une by (simp add: last_rev)
  finally have "hd (py_strip s) = hd ?u" .
  moreover have "\<not> is_space (hd ?u)" using une by (rule hd_dropWhile)
  ultimately show ?thesis by simp
qed

lemma dropWhile_id: "xs = [] \<or> \<not> P (hd xs) \<Longrightarrow> dropWhile P xs = xs"
  by (cases xs) auto

lemma py_strip_fixed:
  assumes "s = [] \<or> (\<not> is_space (hd s) \<and> \<not> is_space (last s))"
  shows "py_strip s = s"
proof (cases "s = []")
  case True then show ?thesis by simp
next
  case False
  with assms have h: "\<not> is_space (hd s)" and l: "\<not> is_space (last s)" by auto
  have 1: "dropWhile is_space s = s" using h by (simp add: dropWhile_id)
  have "hd (rev s) = last s" using False by (simp add: hd_rev)
  then have 2: "dropWhile is_space (rev s) = rev s" using l by (simp add: dropWhile_id)
  show ?thesis by (simp add: py_strip_def 1 2)
qed

lemma py_strip_idem [simp]: "py_strip (py_strip s) = py_strip s"
  by (rule py_strip_fixed) (use py_strip_hd py_strip_last in blast)








lemma parse_line_Nil [simp]: "parse_line [] = empty_parsed"
  by (simp add: parse_line_def)

lemma p_type_empty_parsed [simp]: "p_type empty_parsed = Empty"
  by (simp add: empty_parsed_def)



section \<open>Facts about the pass\<close>


lemma convert_step_output:
  "ls_output_lines (convert_step ls line) = ls_output_lines ls @ [step_output ls line]"
  by (simp add: convert_step_def step_output_def Let_def split_beta)

lemma convert_loop_Cons: "convert_loop ls (l # rest) = convert_loop (convert_step ls l) rest"
  by (simp add: convert_loop_def)

lemma convert_loop_Nil [simp]: "convert_loop ls [] = ls"
  by (simp add: convert_loop_def)

lemma convert_loop_snoc: "convert_loop ls (xs @ [l]) = convert_step (convert_loop ls xs) l"
  by (simp add: convert_loop_def)

lemma convert_loop_append: "convert_loop ls (xs @ ys) = convert_loop (convert_loop ls xs) ys"
  by (simp add: convert_loop_def)

lemma convert_loop_output:
  "ls_output_lines (convert_loop ls lines) = ls_output_lines ls @ loop_outputs ls lines"
  by (induction lines arbitrary: ls) (simp_all add: convert_loop_Cons convert_step_output)

lemma length_loop_outputs [simp]: "length (loop_outputs ls lines) = length lines"
  by (induction lines arbitrary: ls) simp_all

lemma loop_outputs_nth:
  "i < length lines \<Longrightarrow>
     loop_outputs ls lines ! i = step_output (convert_loop ls (take i lines)) (lines ! i)"
proof (induction lines arbitrary: ls i)
  case Nil
  then show ?case by simp
next
  case (Cons l rest)
  then show ?case by (cases i) (simp_all add: convert_loop_Cons)
qed

lemma output_lines_nth:
  "i < length lines \<Longrightarrow>
     output_lines (convert_lines cv lines) ! i = step_output (before_line cv lines i) (lines ! i)"
  by (simp add: convert_lines_def Let_def convert_loop_output loop_init_def before_line_def
      loop_outputs_nth)


lemma before_line_Suc:
  "i < length lines \<Longrightarrow>
     before_line cv lines (Suc i) = convert_step (before_line cv lines i) (lines ! i)"
  by (simp add: before_line_def take_Suc_conv_app_nth convert_loop_snoc)

lemma should_convert_simulator [simp]:
  "should_convert_to_rapid (cv\<lparr>simulator := sim\<rparr>) p s = should_convert_to_rapid cv p s"
  by (simp add: should_convert_to_rapid_def)

lemma convert_line_simulator [simp]:
  "convert_line (cv\<lparr>simulator := sim\<rparr>) line s = convert_line cv line s"
  by (simp add: convert_line_def Let_def)

lemma convert_step_explicit:
  assumes "convert_line cv line (state sim) = (t, c)"
  shows "convert_step
           \<lparr>ls_converter = cv\<lparr>simulator := sim\<rparr>, ls_output_lines = outs, ls_conversions = cs,
            ls_was_prev_line_converted = prev, ls_line_num = n\<rparr> line =
         \<lparr>ls_converter = cv\<lparr>simulator :=
            fst (execute_line sim
                   (if \<not> c \<and> injects_g1 prev line then g1_line line
                    else if c then t else line))\<rparr>,
          ls_output_lines =
            outs @ [if \<not> c \<and> injects_g1 prev line then g1_line line else t],
          ls_conversions =
            (if c then cs @ [\<lparr>cv_line_num = n, cv_original = py_strip line,
                               cv_converted = py_strip
                                 (if \<not> c \<and> injects_g1 prev line then g1_line line else t),
                               cv_z_position = st_z (state sim)\<rparr>]
             else cs),
          ls_was_prev_line_converted = c, ls_line_num = Suc n\<rparr>"
  using assms by (simp add: convert_step_def Let_def)

lemma injects_g1_False [simp]: "injects_g1 False line = False"
  by (simp add: injects_g1_def)

lemma loop_init_explicit:
  "loop_init (GCodeConverter_init zs cons rr) =
     \<lparr>ls_converter = (GCodeConverter_init zs cons rr)\<lparr>simulator := GCodeSimulator_init rr\<rparr>,
      ls_output_lines = [], ls_conversions = [], ls_was_prev_line_converted = False,
      ls_line_num = 1\<rparr>"
  by (simp add: loop_init_def GCodeConverter_init_def)

lemma convert_line_unconverted:
  "\<not> snd (convert_line cv line s) \<Longrightarrow> fst (convert_line cv line s) = line"
  by (auto simp: convert_line_def Let_def split: if_splits)

lemma convert_step_prev:
  "ls_was_prev_line_converted (convert_step ls line) =
     snd (convert_line (ls_converter ls) line (state (simulator (ls_converter ls))))"
  by (simp add: convert_step_def Let_def split_beta)

lemma convert_step_sim:
  "simulator (ls_converter (convert_step ls line)) =
     fst (execute_line (simulator (ls_converter ls)) (step_output ls line))"
  by (auto simp: convert_step_def step_output_def Let_def split_beta convert_line_unconverted)

lemma convert_step_config:
  "z_safe (ls_converter (convert_step ls line)) = z_safe (ls_converter ls)"
  "conservative (ls_converter (convert_step ls line)) = conservative (ls_converter ls)"
  by (simp_all add: convert_step_def Let_def split_beta)

lemma parse_line_strip [simp]: "parse_line (py_strip line) = parse_line line"
  by (simp add: parse_line_def)

lemma convert_line_not_should:
  "\<not> should_convert_to_rapid cv (parse_line (py_strip line)) s \<Longrightarrow>
     convert_line cv line s = (line, False)"
  by (simp add: convert_line_def Let_def del: parse_line_strip)










lemma convert_loop_config:
  "z_safe (ls_converter (convert_loop ls lines)) = z_safe (ls_converter ls)
   \<and> conservative (ls_converter (convert_loop ls lines)) = conservative (ls_converter ls)
   \<and> ls_line_num (convert_loop ls lines) = ls_line_num ls + length lines"
proof (induction lines arbitrary: ls)
  case Nil
  then show ?case by simp
next
  case (Cons l rest)
  have "ls_line_num (convert_step ls l) = Suc (ls_line_num ls)"
    by (simp add: convert_step_def Let_def split_beta)
  with Cons [of "convert_step ls l"] show ?case
    by (simp add: convert_loop_Cons convert_step_config)
qed

lemma before_line_config:
  "z_safe (ls_converter (before_line cv lines i)) = z_safe cv"
  "conservative (ls_converter (before_line cv lines i)) = conservative cv"
  "i \<le> length lines \<Longrightarrow> ls_line_num (before_line cv lines i) = Suc i"
  using convert_loop_config [of "loop_init cv" "take i lines"]
  by (simp_all add: before_line_def loop_init_def)

lemma convert_step_conversions:
  "ls_conversions (convert_step ls line) =
     (if snd (convert_line (ls_converter ls) line (state (simulator (ls_converter ls))))
      then ls_conversions ls @
             [\<lparr>cv_line_num = ls_line_num ls, cv_original = py_strip line,
               cv_converted = py_strip (step_output ls line),
               cv_z_position = st_z (state (simulator (ls_converter ls)))\<rparr>]
      else ls_conversions ls)"
  by (simp add: convert_step_def step_output_def Let_def split_beta)

section \<open>Lines of the form G1 Z followed by digits\<close>

lemma digit_not_space: "is_digit c \<Longrightarrow> \<not> is_space c"
  by (auto simp: is_digit_def is_space_def)

lemma digit_not_special:
  assumes "is_digit c"
  shows "c \<noteq> CHR ''(''" "c \<noteq> CHR '';''" "c \<noteq> CHR ''-''" "c \<noteq> CHR ''+''" "c \<noteq> CHR ''.''"
  using assms by (auto simp: is_digit_def)

lemma digit_not_letter: "is_digit c \<Longrightarrow> 57 < (of_char L :: nat) \<Longrightarrow> \<not> ci_match L c"
  by (auto simp: is_digit_def ci_match_def)

lemma py_strip_append_space:
  assumes "s \<noteq> []" and "\<not> is_space (hd s)" and "\<not> is_space (last s)"
    and "\<forall>c\<in>set e. is_space c"
  shows "py_strip (s @ e) = s"
proof -
  have 1: "dropWhile is_space (s @ e) = s @ e"
    using assms(1,2) by (cases s) auto
  have "dropWhile is_space (rev e @ rev s) = dropWhile is_space (rev s)"
    by (rule dropWhile_append2) (use assms(4) in auto)
  moreover have "dropWhile is_space (rev s) = rev s"
    using assms(1,3) by (simp add: dropWhile_id hd_rev)
  ultimately show ?thesis by (simp add: py_strip_def 1)
qed

lemma remove_paren_id: "CHR ''('' \<notin> set s \<Longrightarrow> remove_paren s = s"
  by (induction s) auto

lemma remove_semicolon_id: "CHR '';'' \<notin> set s \<Longrightarrow> remove_semicolon s = s"
  by (induction s) auto

lemma search_number_None: "\<forall>c\<in>set s. \<not> ci_match L c \<Longrightarrow> search_number L s = None"
  by (induction s) auto

lemma search_digits_None: "\<forall>c\<in>set s. \<not> ci_match L c \<Longrightarrow> search_digits L s = None"
  by (induction s) auto

lemma takeWhile_all: "\<forall>c\<in>set ds. P c \<Longrightarrow> takeWhile P ds = ds"
  by (induction ds) auto

lemma dropWhile_all: "\<forall>c\<in>set ds. P c \<Longrightarrow> dropWhile P ds = []"
  by (induction ds) auto

lemma match_number_digits:
  assumes "ds \<noteq> []" and "\<forall>c\<in>set ds. is_digit c"
  shows "match_number ds = Some (ds, [])"
proof -
  from assms have "is_digit (hd ds)" by (cases ds) auto
  then have "hd ds \<noteq> CHR ''-''" "hd ds \<noteq> CHR ''+''" by (auto dest: digit_not_special)
  then show ?thesis
    using assms by (simp add: match_number_def takeWhile_all dropWhile_all)
qed

lemma float_of_digits:
  assumes "ds \<noteq> []" and "\<forall>c\<in>set ds. is_digit c"
  shows "float_of ds = real (nat_of_digits ds)"
proof -
  from assms have "is_digit (hd ds)" by (cases ds) auto
  then have "hd ds \<noteq> CHR ''-''" "hd ds \<noteq> CHR ''+''" by (auto dest: digit_not_special)
  then show ?thesis
    using assms by (simp add: float_of_def takeWhile_all dropWhile_all nat_of_digits_def)
qed

lemma sub_G1_id: "\<forall>c\<in>set s. \<not> ci_match CHR ''G'' c \<Longrightarrow> sub_G1 pw s = s"
  by (induction s arbitrary: pw) auto

lemma match_F_None: "\<forall>c\<in>set s. \<not> ci_match CHR ''F'' c \<Longrightarrow> match_F s = None"
proof -
  assume a: "\<forall>c\<in>set s. \<not> ci_match CHR ''F'' c"
  let ?t = "dropWhile is_space s"
  have "?t \<noteq> [] \<Longrightarrow> \<not> ci_match CHR ''F'' (hd ?t)"
  proof -
    assume "?t \<noteq> []"
    then have "hd ?t \<in> set ?t" by simp
    then have "hd ?t \<in> set s" by (rule set_dropWhileD)
    with a show ?thesis by simp
  qed
  then show ?thesis by (auto simp: match_F_def Let_def)
qed

lemma sub_F_id: "\<forall>c\<in>set s. \<not> ci_match CHR ''F'' c \<Longrightarrow> sub_F s = s"
proof (induction s)
  case Nil
  then show ?case by simp
next
  case (Cons c cs)
  then have "match_F (c # cs) = None" by (intro match_F_None) simp
  with Cons show ?case by simp
qed





lemma search_number_digits_None:
  "\<forall>c\<in>set ds. is_digit c \<Longrightarrow> 57 < (of_char L :: nat) \<Longrightarrow> search_number L ds = None"
  by (rule search_number_None) (auto dest: digit_not_letter)

lemma search_digits_digits_None:
  "\<forall>c\<in>set ds. is_digit c \<Longrightarrow> 57 < (of_char L :: nat) \<Longrightarrow> search_digits L ds = None"
  by (rule search_digits_None) (auto dest: digit_not_letter)


lemma parse_G_Z:
  assumes "ds \<noteq> []" and "\<forall>c\<in>set ds. is_digit c" and "e = [] \<or> e = [newline]"
    and "g = CHR ''0'' \<or> g = CHR ''1''"
  shows "py_strip (CHR ''G'' # g # '' Z'' @ ds @ e) = CHR ''G'' # g # '' Z'' @ ds"
    and "parse_line (CHR ''G'' # g # '' Z'' @ ds @ e) =
       empty_parsed\<lparr>p_type := Command, p_original := CHR ''G'' # g # '' Z'' @ ds,
         p_G := Some (if g = CHR ''1'' then 1 else 0),
         p_Z := Some (real (nat_of_digits ds))\<rparr>"
proof -
  let ?s = "CHR ''G'' # g # '' Z'' @ ds"
  have dl: "is_digit (last ds)" using assms(1,2) by simp
  have sp: "\<forall>c\<in>set e. is_space c" using assms(3) by (auto simp: is_space_def)
  have "py_strip (?s @ e) = ?s"
    by (rule py_strip_append_space)
      (use assms(1) dl sp in \<open>auto simp: is_space_def dest: digit_not_space\<close>)
  then show st: "py_strip (CHR ''G'' # g # '' Z'' @ ds @ e) = ?s" by simp
  have np: "CHR ''('' \<notin> set ?s" and ns: "CHR '';'' \<notin> set ?s"
    using assms(2,4) by (auto dest: digit_not_special)
  have st2: "py_strip ?s = ?s"
    using py_strip_idem [of "CHR ''G'' # g # '' Z'' @ ds @ e"] by (simp only: st)
  have line: "py_strip (remove_semicolon (remove_paren (py_strip (CHR ''G'' # g # '' Z'' @ ds @ e))))
      = ?s"
    by (simp only: st remove_paren_id [OF np] remove_semicolon_id [OF ns] st2)
  have gd: "is_digit g" using assms(4) by (auto simp: is_digit_def)
  have nd: "search_digits CHR ''M'' ds = None" "search_digits CHR ''S'' ds = None"
    by (simp_all add: search_digits_digits_None [OF assms(2)])
  have nn: "search_number CHR ''X'' ds = None" "search_number CHR ''Y'' ds = None"
    "search_number CHR ''I'' ds = None" "search_number CHR ''J'' ds = None"
    "search_number CHR ''K'' ds = None" "search_number CHR ''R'' ds = None"
    "search_number CHR ''F'' ds = None"
    by (simp_all add: search_number_digits_None [OF assms(2)])
  have G: "search_digits CHR ''G'' ?s = Some [g]"
    using gd by (simp add: ci_match_def is_digit_def)
  have M: "search_digits CHR ''M'' ?s = None" and S: "search_digits CHR ''S'' ?s = None"
    using assms(4) by (auto simp: ci_match_def is_digit_def nd)
  have Z: "search_number CHR ''Z'' ?s = Some ds"
    using assms(4) by (auto simp: ci_match_def match_number_digits [OF assms(1,2)])
  have O: "search_number CHR ''X'' ?s = None" "search_number CHR ''Y'' ?s = None"
    "search_number CHR ''I'' ?s = None" "search_number CHR ''J'' ?s = None"
    "search_number CHR ''K'' ?s = None" "search_number CHR ''R'' ?s = None"
    "search_number CHR ''F'' ?s = None"
    using assms(4) by (auto simp: ci_match_def nn)
  have gv: "int_of_digits (strip_zeros [g]) = (if g = CHR ''1'' then 1 else 0)"
    using assms(4) by (auto simp: strip_zeros_def int_of_digits_def nat_of_digits_def digit_val_def)
  have ne: "?s \<noteq> []" by simp
  show "parse_line (CHR ''G'' # g # '' Z'' @ ds @ e) =
       empty_parsed\<lparr>p_type := Command, p_original := ?s,
         p_G := Some (if g = CHR ''1'' then 1 else 0),
         p_Z := Some (real (nat_of_digits ds))\<rparr>"
    unfolding parse_line_def line Let_def
    by (simp only: ne if_False G M S Z O option.map comp_apply gv float_of_digits [OF assms(1,2)])
      (simp add: empty_parsed_def)
qed


lemma rewrite_G1_Z:
  assumes "ds \<noteq> []" and "\<forall>c\<in>set ds. is_digit c"
  shows "has_g_command (''G1 Z'' @ ds)"
    and "sub_G1 False (''G1 Z'' @ ds) = ''G0 Z'' @ ds"
    and "sub_F (''G0 Z'' @ ds) = ''G0 Z'' @ ds"
proof -
  have d1: "is_digit CHR ''1''" by (simp add: is_digit_def)
  show "has_g_command (''G1 Z'' @ ds)"
    by (simp add: has_g_command_def ci_match_def d1)
  have nG: "\<forall>c\<in>set ds. \<not> ci_match CHR ''G'' c" and nF: "\<forall>c\<in>set ds. \<not> ci_match CHR ''F'' c"
    using assms(2) by (auto simp: is_digit_def ci_match_def)
  have "match_G1_tail (''1 Z'' @ ds) = Some ('' Z'' @ ds)"
    by (simp add: match_G1_tail_def is_word_def)
  then show "sub_G1 False (''G1 Z'' @ ds) = ''G0 Z'' @ ds"
    by (simp add: ci_match_def sub_G1_id [OF nG])
  show "sub_F (''G0 Z'' @ ds) = ''G0 Z'' @ ds"
    by (rule sub_F_id) (use nF in \<open>auto simp: ci_match_def\<close>)
qed

lemma ends_nl_digits:
  assumes "ds \<noteq> []" and "\<forall>c\<in>set ds. is_digit c" and "e = [] \<or> e = [newline]"
  shows "ends_nl (pre @ ds @ e) = (e = [newline])"
proof -
  have "is_digit (last ds)" using assms(1,2) by simp
  then have "last ds \<noteq> newline" by (auto simp: is_digit_def)
  then show ?thesis using assms(1,3) by (auto simp: ends_nl_def)
qed

section \<open>Concrete runs\<close>

lemma sqrt_345: "sqrt (3\<^sup>2 + 4\<^sup>2 + 0\<^sup>2) = (5::real)"
  by (rule real_sqrt_unique) simp_all


lemma parse_feed_600:
  "parse_line ''G1 X3 Y4 F600'' =
     empty_parsed\<lparr>p_type := Command, p_original := ''G1 X3 Y4 F600'', p_G := Some 1,
       p_X := Some 3, p_Y := Some 4, p_F := Some 600\<rparr>"
  by code_simp

lemma parse_feed_unset:
  "parse_line ''G1 X3 Y4'' =
     empty_parsed\<lparr>p_type := Command, p_original := ''G1 X3 Y4'', p_G := Some 1,
       p_X := Some 3, p_Y := Some 4\<rparr>"
  by code_simp

lemmas exec_defs = execute_line_def execute_parsed_def empty_parsed_def
      update_settings_def update_modal_def execute_motion_def new_coord_def Let_def
      GCodeSimulator_init_def MachineState_init_def rate_per_minute_def time_in_seconds_def


lemma run_feed_600:
  "execute_line (GCodeSimulator_init 5000) ''G1 X3 Y4 F600'' =
     (\<lparr>state = MachineState_init\<lparr>st_x := 3, st_y := 4, current_g := Some 1,
                                   feed_rate := Some 600, total_time_seconds := 1 / 2\<rparr>,
       move_history = [\<lparr>mv_type = ''feed'', mv_from = (0, 0, 0), mv_to = (3, 4, 0),
                        mv_feed_rate = Some 600, mv_distance = 5, mv_time_s = 1 / 2\<rparr>],
       rapid_traverse_rate = 5000\<rparr>,
      Some \<lparr>mv_type = ''feed'', mv_from = (0, 0, 0), mv_to = (3, 4, 0),
            mv_feed_rate = Some 600, mv_distance = 5, mv_time_s = 1 / 2\<rparr>)"
  by (simp add: exec_defs parse_feed_600 sqrt_345)

lemma run_feed_unset:
  "execute_line (GCodeSimulator_init 5000) ''G1 X3 Y4'' =
     (\<lparr>state = MachineState_init\<lparr>st_x := 3, st_y := 4, current_g := Some 1,
                                   total_time_seconds := 300\<rparr>,
       move_history = [\<lparr>mv_type = ''feed'', mv_from = (0, 0, 0), mv_to = (3, 4, 0),
                        mv_feed_rate = None, mv_distance = 5, mv_time_s = 300\<rparr>],
       rapid_traverse_rate = 5000\<rparr>,
      Some \<lparr>mv_type = ''feed'', mv_from = (0, 0, 0), mv_to = (3, 4, 0),
            mv_feed_rate = None, mv_distance = 5, mv_time_s = 300\<rparr>)"
  by (simp add: exec_defs parse_feed_unset sqrt_345)

lemma parse_g10:
  "parse_line ''G10 L20 P1 Z0.5'' =
     empty_parsed\<lparr>p_type := Command, p_original := ''G10 L20 P1 Z0.5'', p_G := Some 10,
       p_Z := Some (1 / 2)\<rparr>"
  by code_simp

lemma sqrt_400: "sqrt 400 = 20" by (rule real_sqrt_unique) simp_all
lemma sqrt_100: "sqrt 100 = 10" by (rule real_sqrt_unique) simp_all
lemma sqrt_25: "sqrt 25 = 5" by (rule real_sqrt_unique) simp_all

lemma parse_g0_z20:
  "parse_line (with_nl ''G0 Z20'') =
     empty_parsed\<lparr>p_type := Command, p_original := ''G0 Z20'', p_G := Some 0, p_Z := Some 20\<rparr>"
  by code_simp

lemma parse_g0_z25:
  "parse_line (with_nl ''G0 Z25'') =
     empty_parsed\<lparr>p_type := Command, p_original := ''G0 Z25'', p_G := Some 0, p_Z := Some 25\<rparr>"
  by code_simp

lemma parse_g1x10:
  "parse_line (with_nl ''G1X10'') =
     empty_parsed\<lparr>p_type := Command, p_original := ''G1X10'', p_G := Some 1, p_X := Some 10\<rparr>"
  by code_simp

lemma run_g0_z20:
  "execute_line (GCodeSimulator_init 5000) (with_nl ''G0 Z20'') =
     (sim_z20, Some \<lparr>mv_type = ''rapid'', mv_from = (0, 0, 0), mv_to = (0, 0, 20),
                     mv_feed_rate = None, mv_distance = 20, mv_time_s = 6 / 25\<rparr>)"
  by (simp add: exec_defs parse_g0_z20 sim_z20_def sqrt_400)

lemma run_g0_z25:
  "execute_line sim_z20 (with_nl ''G0 Z25'') =
     (sim_z25, Some \<lparr>mv_type = ''rapid'', mv_from = (0, 0, 20), mv_to = (0, 0, 25),
                     mv_feed_rate = None, mv_distance = 5, mv_time_s = 3 / 50\<rparr>)"
  by (simp add: exec_defs parse_g0_z25 sim_z20_def sim_z25_def sqrt_25)

lemma run_g1x10:
  "execute_line sim_z20 (with_nl ''G1X10'') =
     (sim_z20\<lparr>state := (state sim_z20)\<lparr>st_x := 10, current_g := Some 1,
                                         total_time_seconds := 6 / 25 + 600\<rparr>,
              move_history := move_history sim_z20 @
                [\<lparr>mv_type = ''feed'', mv_from = (0, 0, 20), mv_to = (10, 0, 20),
                  mv_feed_rate = None, mv_distance = 10, mv_time_s = 600\<rparr>]\<rparr>,
      Some \<lparr>mv_type = ''feed'', mv_from = (0, 0, 20), mv_to = (10, 0, 20),
            mv_feed_rate = None, mv_distance = 10, mv_time_s = 600\<rparr>)"
  by (simp add: exec_defs parse_g1x10 sim_z20_def sqrt_100)

lemma cl_g0_z20:
  "convert_line (GCodeConverter_init 17 True 5000) (with_nl ''G0 Z20'')
     (state (GCodeSimulator_init 5000)) = (with_nl ''G0 Z20'', False)"
  by code_simp

lemma cl_g1x10:
  "convert_line (GCodeConverter_init 17 True 5000) (with_nl ''G1X10 F100'')
     (state sim_z20) = (with_nl ''G1X10'', True)"
  by code_simp

lemma step_g0_z20:
  "convert_step (loop_init (GCodeConverter_init 17 True 5000)) (with_nl ''G0 Z20'') =
     \<lparr>ls_converter = (GCodeConverter_init 17 True 5000)\<lparr>simulator := sim_z20\<rparr>,
      ls_output_lines = [with_nl ''G0 Z20''], ls_conversions = [],
      ls_was_prev_line_converted = False, ls_line_num = 2\<rparr>"
  unfolding loop_init_explicit
  by (simp add: convert_step_explicit [OF cl_g0_z20] run_g0_z20)

lemma strip_g1x10_f: "py_strip (with_nl ''G1X10 F100'') = ''G1X10 F100''" by code_simp
lemma strip_g1x10: "py_strip (with_nl ''G1X10'') = ''G1X10''" by code_simp

lemma st_z_sim_z20: "st_z (state sim_z20) = 20"
  by (simp add: sim_z20_def)

lemma file_unspaced_g1:
  "output_lines (convert_lines (GCodeConverter_init 17 True 5000)
       [with_nl ''G0 Z20'', with_nl ''G1X10 F100''])
     = [with_nl ''G0 Z20'', with_nl ''G1X10'']
   \<and> conversions (convert_lines (GCodeConverter_init 17 True 5000)
       [with_nl ''G0 Z20'', with_nl ''G1X10 F100''])
     = [\<lparr>cv_line_num = 2, cv_original = ''G1X10 F100'', cv_converted = ''G1X10'',
         cv_z_position = 20\<rparr>]
   \<and> map mv_type (result_move_history (convert_lines (GCodeConverter_init 17 True 5000)
       [with_nl ''G0 Z20'', with_nl ''G1X10 F100''])) = [''rapid'', ''feed'']
   \<and> p_G (parse_line (with_nl ''G1X10'')) = Some 1"
  by (simp add: convert_lines_def convert_loop_def step_g0_z20
      convert_step_explicit [OF cl_g1x10] run_g1x10 strip_g1x10 strip_g1x10_f st_z_sim_z20
      parse_g1x10 empty_parsed_def)
    (simp add: sim_z20_def)












lemma cl_g1_z25:
  "convert_line (GCodeConverter_init 17 True 5000) (with_nl ''G1 Z25'') (state sim_z20)
     = (with_nl ''G0 Z25'', True)"
  by code_simp

lemma cl_x3_y4_z25:
  "convert_line (GCodeConverter_init 17 True 5000) (with_nl ''X3 Y4'') (state sim_z25)
     = (with_nl ''X3 Y4'', False)"
  by code_simp

lemma parse_x3_y4:
  "parse_line (with_nl ''X3 Y4'') =
     empty_parsed\<lparr>p_type := Command, p_original := ''X3 Y4'', p_X := Some 3, p_Y := Some 4\<rparr>"
  by code_simp

lemma strip_examples:
  "py_strip (with_nl ''G1 Z25'') = ''G1 Z25''"
  "py_strip (with_nl ''G0 Z25'') = ''G0 Z25''"
  "py_strip (with_nl ''X3 Y4'') = ''X3 Y4''"
  "ends_nl (with_nl ''X3 Y4'')"
  by code_simp+

lemma step_g1_z25:
  "convert_step
     \<lparr>ls_converter = (GCodeConverter_init 17 True 5000)\<lparr>simulator := sim_z20\<rparr>,
      ls_output_lines = [with_nl ''G0 Z20''], ls_conversions = [],
      ls_was_prev_line_converted = False, ls_line_num = 2\<rparr> (with_nl ''G1 Z25'') =
     \<lparr>ls_converter = (GCodeConverter_init 17 True 5000)\<lparr>simulator := sim_z25\<rparr>,
      ls_output_lines = [with_nl ''G0 Z20'', with_nl ''G0 Z25''],
      ls_conversions = [\<lparr>cv_line_num = 2, cv_original = ''G1 Z25'', cv_converted = ''G0 Z25'',
                          cv_z_position = 20\<rparr>],
      ls_was_prev_line_converted = True, ls_line_num = 3\<rparr>"
  by (simp add: convert_step_explicit [OF cl_g1_z25] run_g0_z25 strip_examples st_z_sim_z20)

lemma before_line_example_1:
  "before_line (GCodeConverter_init 17 True 5000) (with_nl ''G0 Z20'' # rest) (Suc 0) =
     \<lparr>ls_converter = (GCodeConverter_init 17 True 5000)\<lparr>simulator := sim_z20\<rparr>,
      ls_output_lines = [with_nl ''G0 Z20''], ls_conversions = [],
      ls_was_prev_line_converted = False, ls_line_num = 2\<rparr>"
  by (simp add: before_line_def convert_loop_def step_g0_z20)

lemma before_line_example_2:
  "before_line (GCodeConverter_init 17 True 5000)
     (with_nl ''G0 Z20'' # with_nl ''G1 Z25'' # rest) 2 =
     \<lparr>ls_converter = (GCodeConverter_init 17 True 5000)\<lparr>simulator := sim_z25\<rparr>,
      ls_output_lines = [with_nl ''G0 Z20'', with_nl ''G0 Z25''],
      ls_conversions = [\<lparr>cv_line_num = 2, cv_original = ''G1 Z25'', cv_converted = ''G0 Z25'',
                          cv_z_position = 20\<rparr>],
      ls_was_prev_line_converted = True, ls_line_num = 3\<rparr>"
proof -
  have "take 2 (with_nl ''G0 Z20'' # with_nl ''G1 Z25'' # rest)
          = [with_nl ''G0 Z20'', with_nl ''G1 Z25'']"
    by (simp add: numeral_2_eq_2)
  then show ?thesis
    by (simp add: before_line_def convert_loop_def step_g0_z20 step_g1_z25)
qed


section \<open>The conversion decision (C1)\<close>

text \<open>
  C1. For every parsed line and every machine state before the line,
  \<open>should_convert_to_rapid\<close> is true exactly when: the effective G (the G of the line
  if it has one, else the modal motion mode of the state) is 1; one of X, Y, Z is
  present; the current Z and the target Z (the Z field in absolute mode, current Z plus
  the field in relative mode, current Z when there is no Z field) are both at or above
  the safe-Z threshold; and conservative mode is on and the line has no Z field, or the
  line has a Z field and the target is not below the current Z, or conservative mode is
  off.
\<close>

theorem should_convert_to_rapid_iff:
  "should_convert_to_rapid cv p s \<longleftrightarrow>
     (let g = (case p_G p of Some v \<Rightarrow> Some v | None \<Rightarrow> current_g s);
          target_z = (case p_Z p of None \<Rightarrow> st_z s
                      | Some v \<Rightarrow> if absolute_mode s then v else st_z s + v)
      in g = Some 1
         \<and> (p_X p \<noteq> None \<or> p_Y p \<noteq> None \<or> p_Z p \<noteq> None)
         \<and> st_z s \<ge> z_safe cv \<and> target_z \<ge> z_safe cv
         \<and> ((conservative cv \<and> p_Z p = None)
            \<or> (p_Z p \<noteq> None \<and> target_z \<ge> st_z s)
            \<or> \<not> conservative cv))"
  by (auto simp: should_convert_to_rapid_def new_coord_def Let_def split: option.splits)

text \<open>
  The decision at a concrete input: with threshold 17 in conservative mode, a G1 line
  with X and Y and no Z converts at Z = 20 and does not convert at Z = 10.
\<close>

theorem should_convert_to_rapid_iff_witness:
  "should_convert_to_rapid (GCodeConverter_init 17 True 5000)
     (empty_parsed\<lparr>p_type := Command, p_G := Some 1, p_X := Some 10, p_Y := Some 10\<rparr>)
     (MachineState_init\<lparr>st_z := 20\<rparr>)
   \<and> \<not> should_convert_to_rapid (GCodeConverter_init 17 True 5000)
     (empty_parsed\<lparr>p_type := Command, p_G := Some 1, p_X := Some 10, p_Y := Some 10\<rparr>)
     (MachineState_init\<lparr>st_z := 10\<rparr>)"
  using should_convert_to_rapid_iff [of "GCodeConverter_init 17 True 5000"
      "empty_parsed\<lparr>p_type := Command, p_G := Some 1, p_X := Some 10, p_Y := Some 10\<rparr>"
      "MachineState_init\<lparr>st_z := 20\<rparr>"]
    should_convert_to_rapid_iff [of "GCodeConverter_init 17 True 5000"
      "empty_parsed\<lparr>p_type := Command, p_G := Some 1, p_X := Some 10, p_Y := Some 10\<rparr>"
      "MachineState_init\<lparr>st_z := 10\<rparr>"]
  by (simp add: GCodeConverter_init_def empty_parsed_def MachineState_init_def)

section \<open>Reinjection of G1 after a converted line (C2)\<close>

text \<open>
  C2. In the pass, for every line \<open>i\<close> that is not converted, whose parse has no G code
  but has at least one of X, Y, Z, I, J, K, and whose preceding line was converted,
  the emitted output line is the stripped text of the line with \<^verbatim>\<open>G1 \<close> prepended and
  a newline appended if the line ended with one, and the simulator is advanced by
  executing that same text.
\<close>

theorem g1_reinjection:
  assumes "0 < i" and "i < length lines"
    and "converted_at cv lines (i - 1)"
    and "\<not> converted_at cv lines i"
    and "p_G (parse_line (py_strip (lines ! i))) = None"
    and "p_X (parse_line (py_strip (lines ! i))) \<noteq> None
       \<or> p_Y (parse_line (py_strip (lines ! i))) \<noteq> None
       \<or> p_Z (parse_line (py_strip (lines ! i))) \<noteq> None
       \<or> p_I (parse_line (py_strip (lines ! i))) \<noteq> None
       \<or> p_J (parse_line (py_strip (lines ! i))) \<noteq> None
       \<or> p_K (parse_line (py_strip (lines ! i))) \<noteq> None"
  shows "output_lines (convert_lines cv lines) ! i =
           ''G1 '' @ py_strip (lines ! i) @ (if ends_nl (lines ! i) then [newline] else [])
       \<and> sim_before cv lines (Suc i) =
           fst (execute_line (sim_before cv lines i)
                  (''G1 '' @ py_strip (lines ! i) @ (if ends_nl (lines ! i) then [newline] else [])))"
proof -
  let ?ls = "before_line cv lines i"
  from assms(1) obtain j where j: "i = Suc j" by (cases i) auto
  with assms(2) have "j < length lines" by simp
  then have "?ls = convert_step (before_line cv lines j) (lines ! j)"
    unfolding j by (rule before_line_Suc)
  then have "ls_was_prev_line_converted ?ls = converted_at cv lines j"
    by (simp add: convert_step_prev converted_at_def sim_before_def)
  with assms(3) j have prev: "ls_was_prev_line_converted ?ls" by simp
  have inj: "injects_g1 (ls_was_prev_line_converted ?ls) (lines ! i)"
    using prev assms(5,6) by (simp add: injects_g1_def is_motion_def del: parse_line_strip)
  have nc: "\<not> snd (convert_line (ls_converter ?ls) (lines ! i) (state (simulator (ls_converter ?ls))))"
    using assms(4) by (simp add: converted_at_def sim_before_def)
  have so: "step_output ?ls (lines ! i) = g1_line (lines ! i)"
    using inj nc by (simp add: step_output_def Let_def split_beta)
  have 1: "output_lines (convert_lines cv lines) ! i = g1_line (lines ! i)"
    using assms(2) so by (simp add: output_lines_nth)
  have "sim_before cv lines (Suc i) = fst (execute_line (sim_before cv lines i) (g1_line (lines ! i)))"
    using assms(2) so by (simp add: sim_before_def before_line_Suc convert_step_sim)
  with 1 show ?thesis by (simp add: g1_line_def)
qed


text \<open>
  The pass over \<^verbatim>\<open>G0 Z20\<close>, \<^verbatim>\<open>G1 Z25\<close>, \<^verbatim>\<open>X3 Y4\<close> with the default configuration: the
  second line is converted, the third is emitted and executed as \<^verbatim>\<open>G1 X3 Y4\<close>.
\<close>

theorem g1_reinjection_witness:
  "output_lines (convert_lines (GCodeConverter_init 17 True 5000)
     [''G0 Z20'' @ [newline], ''G1 Z25'' @ [newline], ''X3 Y4'' @ [newline]]) ! 2
     = ''G1 X3 Y4'' @ [newline]
   \<and> sim_before (GCodeConverter_init 17 True 5000)
       [''G0 Z20'' @ [newline], ''G1 Z25'' @ [newline], ''X3 Y4'' @ [newline]] 3
     = fst (execute_line
         (sim_before (GCodeConverter_init 17 True 5000)
            [''G0 Z20'' @ [newline], ''G1 Z25'' @ [newline], ''X3 Y4'' @ [newline]] 2)
         (''G1 X3 Y4'' @ [newline]))"
proof -
  let ?cv = "GCodeConverter_init 17 True 5000"
  let ?lines = "[with_nl ''G0 Z20'', with_nl ''G1 Z25'', with_nl ''X3 Y4'']"
  have a: "(0::nat) < 2" and b: "2 < length ?lines" by simp_all
  have c: "converted_at ?cv ?lines (2 - 1)"
    by (simp add: converted_at_def sim_before_def before_line_example_1 cl_g1_z25)
  have d: "\<not> converted_at ?cv ?lines 2"
    by (simp add: converted_at_def sim_before_def before_line_example_2 cl_x3_y4_z25)
  have e: "p_G (parse_line (py_strip (?lines ! 2))) = None"
    by (simp add: parse_x3_y4 empty_parsed_def)
  have f: "p_X (parse_line (py_strip (?lines ! 2))) \<noteq> None
       \<or> p_Y (parse_line (py_strip (?lines ! 2))) \<noteq> None
       \<or> p_Z (parse_line (py_strip (?lines ! 2))) \<noteq> None
       \<or> p_I (parse_line (py_strip (?lines ! 2))) \<noteq> None
       \<or> p_J (parse_line (py_strip (?lines ! 2))) \<noteq> None
       \<or> p_K (parse_line (py_strip (?lines ! 2))) \<noteq> None"
    by (simp add: parse_x3_y4 empty_parsed_def)
  from g1_reinjection [OF a b c d e f]
  have "output_lines (convert_lines ?cv ?lines) ! 2 = ''G1 X3 Y4'' @ [newline]
      \<and> sim_before ?cv ?lines 3 =
          fst (execute_line (sim_before ?cv ?lines 2) (''G1 X3 Y4'' @ [newline]))"
    by (simp add: strip_examples)
  then show ?thesis unfolding with_nl_def .
qed

section \<open>Rewriting a line to a rapid (C3)\<close>

text \<open>
  C3. \<open>convert_line\<close> returns the line unchanged with \<open>converted = false\<close> when the line
  parses as empty or \<open>should_convert\<close> is false (\<open>convert_line_Empty\<close>,
  \<open>convert_line_not_should\<close>); when \<open>should_convert\<close> is true it returns
  \<open>converted = true\<close> with the explicit G1 token replaced by G0, or G0 prepended when
  there is no explicit G token, every F token stripped and the final newline kept.

  The code departs from the second half when the G1 word is followed directly by
  another word. In the pass over \<^verbatim>\<open>G0 Z20\<close>, \<^verbatim>\<open>G1X10 F100\<close> with the default
  configuration, the second line is reported as converted and logged as a conversion,
  and its feed rate is stripped, but its G1 token is neither replaced nor is G0
  prepended: the emitted text still parses with G = 1 and the simulator executes it as
  a feed move.
\<close>

theorem unspaced_g1_not_rewritten:
  "output_lines (convert_lines (GCodeConverter_init 17 True 5000)
       [''G0 Z20'' @ [newline], ''G1X10 F100'' @ [newline]])
     = [''G0 Z20'' @ [newline], ''G1X10'' @ [newline]]
   \<and> conversions (convert_lines (GCodeConverter_init 17 True 5000)
       [''G0 Z20'' @ [newline], ''G1X10 F100'' @ [newline]])
     = [\<lparr>cv_line_num = 2, cv_original = ''G1X10 F100'', cv_converted = ''G1X10'',
         cv_z_position = 20\<rparr>]
   \<and> map mv_type (result_move_history (convert_lines (GCodeConverter_init 17 True 5000)
       [''G0 Z20'' @ [newline], ''G1X10 F100'' @ [newline]])) = [''rapid'', ''feed'']
   \<and> p_G (parse_line (''G1X10'' @ [newline])) = Some 1"
  by (rule file_unspaced_g1 [unfolded with_nl_def])

section \<open>Distance, rate and time of a move (C4)\<close>




section \<open>The G10 probe reset (C5)\<close>

text \<open>
  C5. For every line whose parse has G = 10 and a Z field, \<open>execute_line\<close> sets the Z of
  the state to the parsed value, whatever the coordinate mode, and changes nothing
  else: no modal, feed-rate or spindle update, no change of X or Y, no time added, and
  no record appended to the move history; it returns no move record.
\<close>

theorem execute_line_g10_probe:
  assumes "p_G (parse_line line) = Some 10" and "p_Z (parse_line line) = Some v"
  shows "execute_line sim line = (sim\<lparr>state := (state sim)\<lparr>st_z := v\<rparr>\<rparr>, None)"
  using assms by (simp add: execute_line_def execute_parsed_def)

text \<open>The probe line \<^verbatim>\<open>G10 L20 P1 Z0.5\<close> on a fresh simulator.\<close>

theorem execute_line_g10_probe_witness:
  "execute_line (GCodeSimulator_init 5000) ''G10 L20 P1 Z0.5'' =
     ((GCodeSimulator_init 5000)\<lparr>state := (state (GCodeSimulator_init 5000))\<lparr>st_z := 1 / 2\<rparr>\<rparr>, None)"
proof -
  have g: "p_G (parse_line ''G10 L20 P1 Z0.5'') = Some 10"
    and z: "p_Z (parse_line ''G10 L20 P1 Z0.5'') = Some (1 / 2)"
    by (simp_all add: parse_g10 empty_parsed_def)
  show ?thesis by (rule execute_line_g10_probe [OF g z])
qed

section \<open>The accumulated time never decreases (C6)\<close>



section \<open>The feed rate stored in a move record (C8)\<close>

text \<open>
  C8 as stated fails when the feed rate was never set. The line \<^verbatim>\<open>G1 X3 Y4\<close> on a
  fresh simulator is a feed move whose time, 300 seconds, comes from the fallback rate
  1; its record has no feed rate, although the move is not a rapid.
\<close>

theorem move_feed_rate_unset_counterexample:
  "snd (execute_line (GCodeSimulator_init 5000) ''G1 X3 Y4'') =
     Some \<lparr>mv_type = ''feed'', mv_from = (0, 0, 0), mv_to = (3, 4, 0),
           mv_feed_rate = None, mv_distance = 5, mv_time_s = 300\<rparr>
   \<and> rate_per_minute (GCodeSimulator_init 5000)
        (state (fst (execute_line (GCodeSimulator_init 5000) ''G1 X3 Y4''))) = 1
   \<and> time_in_seconds 5 1 = 300"
  by (simp add: run_feed_unset rate_per_minute_def MachineState_init_def time_in_seconds_def)

text \<open>
  C8, amended. Every move record stores the modal feed rate of the state at the time
  of the move (after the F update of the line): it is null for a rapid (mode 0), and for
  any other move it is the current \<open>feed_rate\<close> of the state, which is null when no feed
  rate was ever set, even though the fallback rate 1 then determines the time. The
  record's kind is \<open>rapid\<close> exactly when the mode is 0, else \<open>feed\<close>.
\<close>

theorem move_feed_rate_field:
  assumes "execute_line sim line = (sim', Some info)"
  shows "mv_feed_rate info =
           (if current_g (state sim') = Some 0 then None else feed_rate (state sim'))
       \<and> (mv_type info = ''rapid'' \<longleftrightarrow> current_g (state sim') = Some 0)
       \<and> (mv_type info = ''feed'' \<longleftrightarrow> current_g (state sim') \<noteq> Some 0)"
proof -
  let ?p = "parse_line line"
  from assms have m: "execute_motion ?p sim (update_settings ?p (state sim)) = (sim', Some info)"
    by (simp add: execute_line_def execute_parsed_Some)
  note f = execute_motion_Some [OF m]
  show ?thesis using f(1,2,10,11) by auto
qed

text \<open>The record of \<^verbatim>\<open>G1 X3 Y4 F600\<close> stores the feed rate 600.\<close>

theorem move_feed_rate_field_witness:
  "mv_feed_rate \<lparr>mv_type = ''feed'', mv_from = (0, 0, 0), mv_to = (3, 4, 0),
            mv_feed_rate = Some 600, mv_distance = 5, mv_time_s = 1 / 2\<rparr> = Some 600
   \<and> feed_rate (state (fst (execute_line (GCodeSimulator_init 5000) ''G1 X3 Y4 F600''))) = Some 600
   \<and> current_g (state (fst (execute_line (GCodeSimulator_init 5000) ''G1 X3 Y4 F600''))) \<noteq> Some 0"
proof -
  have e: "execute_line (GCodeSimulator_init 5000) ''G1 X3 Y4 F600'' =
     (fst (execute_line (GCodeSimulator_init 5000) ''G1 X3 Y4 F600''),
      Some \<lparr>mv_type = ''feed'', mv_from = (0, 0, 0), mv_to = (3, 4, 0),
            mv_feed_rate = Some 600, mv_distance = 5, mv_time_s = 1 / 2\<rparr>)"
    by (simp add: run_feed_600)
  from move_feed_rate_field [OF e] show ?thesis
    by (simp add: run_feed_600 split: if_splits)
qed

section \<open>Line count and line endings (C7)\<close>




section \<open>A blank line clears the reinjection flag (C9)\<close>




section \<open>A conversion with zero displacement (C10)\<close>

text \<open>
  C10. A conversion can occur with zero displacement. In absolute mode, for a line
  \<^verbatim>\<open>G1 Z\<close> followed by the digits of the current Z (with or without a final newline),
  with that Z at or above the safe-Z threshold, in conservative as in aggressive mode:
  the line parses with G = 1 and its Z field equal to the current Z,
  \<open>should_convert_to_rapid\<close> is true, the line is rewritten to \<^verbatim>\<open>G0 Z\<close> with the same
  digits, and a conversion record with the line number, both texts and the current Z
  is appended; yet executing the rewritten line returns no move record, only sets the
  modal mode to 0, and leaves the move history and the accumulated time unchanged.
\<close>

theorem zero_displacement_conversion:
  assumes "i < length lines"
    and "ds \<noteq> []" and "\<forall>c\<in>set ds. is_digit c"
    and "e = [] \<or> e = [newline]"
    and "lines ! i = ''G1 Z'' @ ds @ e"
    and "absolute_mode (state (sim_before cv lines i))"
    and "st_z (state (sim_before cv lines i)) = real (nat_of_digits ds)"
    and "z_safe cv \<le> real (nat_of_digits ds)"
  shows "p_G (parse_line (lines ! i)) = Some 1
       \<and> p_Z (parse_line (lines ! i)) = Some (st_z (state (sim_before cv lines i)))
       \<and> should_convert_to_rapid (ls_converter (before_line cv lines i))
           (parse_line (py_strip (lines ! i))) (state (sim_before cv lines i))
       \<and> converted_at cv lines i
       \<and> output_lines (convert_lines cv lines) ! i = ''G0 Z'' @ ds @ e
       \<and> ls_conversions (before_line cv lines (Suc i)) =
           ls_conversions (before_line cv lines i) @
             [\<lparr>cv_line_num = Suc i, cv_original = ''G1 Z'' @ ds, cv_converted = ''G0 Z'' @ ds,
               cv_z_position = st_z (state (sim_before cv lines i))\<rparr>]
       \<and> execute_line (sim_before cv lines i) (''G0 Z'' @ ds @ e) =
           ((sim_before cv lines i)\<lparr>state := (state (sim_before cv lines i))\<lparr>current_g := Some 0\<rparr>\<rparr>,
            None)
       \<and> sim_before cv lines (Suc i) =
           (sim_before cv lines i)\<lparr>state := (state (sim_before cv lines i))\<lparr>current_g := Some 0\<rparr>\<rparr>
       \<and> move_history (sim_before cv lines (Suc i)) = move_history (sim_before cv lines i)
       \<and> total_time_seconds (state (sim_before cv lines (Suc i))) =
           total_time_seconds (state (sim_before cv lines i))"
proof -
  let ?ls = "before_line cv lines i"
  let ?cv = "ls_converter ?ls"
  let ?sim = "sim_before cv lines i"
  let ?st = "state ?sim"
  let ?z = "real (nat_of_digits ds)"
  let ?line = "''G1 Z'' @ ds @ e"
  let ?new = "''G0 Z'' @ ds @ e"
  have sim: "simulator ?cv = ?sim" by (simp add: sim_before_def)
  have p1: "parse_line ?line =
      empty_parsed\<lparr>p_type := Command, p_original := ''G1 Z'' @ ds, p_G := Some 1, p_Z := Some ?z\<rparr>"
    and s1: "py_strip ?line = ''G1 Z'' @ ds"
    using parse_G_Z [OF assms(2,3,4), of "CHR ''1''"] by simp_all
  have p0: "parse_line ?new =
      empty_parsed\<lparr>p_type := Command, p_original := ''G0 Z'' @ ds, p_G := Some 0, p_Z := Some ?z\<rparr>"
    and s0: "py_strip ?new = ''G0 Z'' @ ds"
    using parse_G_Z [OF assms(2,3,4), of "CHR ''0''"] by simp_all
  have sc: "should_convert_to_rapid ?cv (parse_line ?line) ?st"
    using assms(6,7,8) p1
    by (simp add: should_convert_to_rapid_def empty_parsed_def new_coord_def before_line_config)
  have en: "ends_nl ?line = (e = [newline])"
    using ends_nl_digits [OF assms(2,3,4), of "''G1 Z''"] by simp
  have cl: "convert_line ?cv ?line ?st = (?new, True)"
  proof -
    have ne: "p_type (parse_line ?line) \<noteq> Empty" using p1 by (simp add: empty_parsed_def)
    have "convert_line ?cv ?line ?st =
        (sub_F (sub_G1 False (''G1 Z'' @ ds)) @ (if ends_nl ?line then [newline] else []), True)"
      using ne sc rewrite_G1_Z(1) [OF assms(2,3)] s1
        parse_line_strip [of "''G1 Z'' @ ds @ e", unfolded s1]
      by (simp add: convert_line_def Let_def del: parse_line_strip)
    also have "\<dots> = (?new, True)"
      using assms(4) rewrite_G1_Z(2,3) [OF assms(2,3)] en by auto
    finally show ?thesis .
  qed
  have ca: "converted_at cv lines i"
    using cl by (simp add: converted_at_def assms(5))
  have so: "step_output ?ls (lines ! i) = ?new"
    using cl by (simp add: step_output_def assms(5) sim)
  have out: "output_lines (convert_lines cv lines) ! i = ?new"
    using assms(1) so by (simp add: output_lines_nth)
  have b: "before_line cv lines (Suc i) = convert_step ?ls (lines ! i)"
    using assms(1) by (rule before_line_Suc)
  have cs: "ls_conversions (before_line cv lines (Suc i)) =
      ls_conversions ?ls @
        [\<lparr>cv_line_num = Suc i, cv_original = ''G1 Z'' @ ds, cv_converted = ''G0 Z'' @ ds,
          cv_z_position = st_z ?st\<rparr>]"
    using assms(1) cl so s1 s0
    by (simp add: b convert_step_conversions assms(5) sim before_line_config)
  have ex: "execute_line ?sim ?new = (?sim\<lparr>state := ?st\<lparr>current_g := Some 0\<rparr>\<rparr>, None)"
    using assms(6,7) p0
    by (simp add: execute_line_def execute_parsed_def empty_parsed_def update_settings_def
        update_modal_def execute_motion_def new_coord_def Let_def)
  have sn: "sim_before cv lines (Suc i) = ?sim\<lparr>state := ?st\<lparr>current_g := Some 0\<rparr>\<rparr>"
    using so ex by (simp add: sim_before_def b convert_step_sim)
  from p1 assms(7) have pz: "p_G (parse_line (lines ! i)) = Some 1
      \<and> p_Z (parse_line (lines ! i)) = Some (st_z ?st)"
    by (simp add: assms(5) empty_parsed_def)
  have sc': "should_convert_to_rapid ?cv (parse_line (py_strip (lines ! i))) ?st"
    using sc by (simp add: assms(5))
  from pz sc' ca out cs ex sn show ?thesis by simp
qed


text \<open>
  The pass over \<^verbatim>\<open>G0 Z20\<close>, \<^verbatim>\<open>G1 Z20\<close> with the default configuration (conservative
  mode, threshold 17): the second line is converted and logged, and adds neither a move
  nor time.
\<close>

theorem zero_displacement_conversion_witness:
  "converted_at (GCodeConverter_init 17 True 5000)
     [''G0 Z20'' @ [newline], ''G1 Z20'' @ [newline]] 1
   \<and> output_lines (convert_lines (GCodeConverter_init 17 True 5000)
       [''G0 Z20'' @ [newline], ''G1 Z20'' @ [newline]]) ! 1 = ''G0 Z20'' @ [newline]
   \<and> ls_conversions (before_line (GCodeConverter_init 17 True 5000)
       [''G0 Z20'' @ [newline], ''G1 Z20'' @ [newline]] 2)
     = [\<lparr>cv_line_num = 2, cv_original = ''G1 Z20'', cv_converted = ''G0 Z20'',
         cv_z_position = 20\<rparr>]
   \<and> move_history (sim_before (GCodeConverter_init 17 True 5000)
       [''G0 Z20'' @ [newline], ''G1 Z20'' @ [newline]] 2)
     = move_history (sim_before (GCodeConverter_init 17 True 5000)
       [''G0 Z20'' @ [newline], ''G1 Z20'' @ [newline]] 1)
   \<and> total_time_seconds (state (sim_before (GCodeConverter_init 17 True 5000)
       [''G0 Z20'' @ [newline], ''G1 Z20'' @ [newline]] 2)) = 6 / 25"
proof -
  let ?cv = "GCodeConverter_init 17 True 5000"
  let ?lines = "[with_nl ''G0 Z20'', ''G1 Z'' @ ''20'' @ [newline]]"
  have b1: "before_line ?cv ?lines (Suc 0) =
     \<lparr>ls_converter = ?cv\<lparr>simulator := sim_z20\<rparr>,
      ls_output_lines = [with_nl ''G0 Z20''], ls_conversions = [],
      ls_was_prev_line_converted = False, ls_line_num = 2\<rparr>"
    by (rule before_line_example_1)
  have s: "sim_before ?cv ?lines (Suc 0) = sim_z20" using b1 by (simp add: sim_before_def)
  have n: "nat_of_digits ''20'' = 20" by (simp add: nat_of_digits_def digit_val_def)
  have a: "Suc 0 < length ?lines" by simp
  have b: "''20'' \<noteq> []" and c: "\<forall>c\<in>set ''20''. is_digit c" by (simp_all add: is_digit_def)
  have d: "[newline] = [] \<or> [newline] = [newline]" by simp
  have e: "?lines ! Suc 0 = ''G1 Z'' @ ''20'' @ [newline]" by simp
  have f: "absolute_mode (state (sim_before ?cv ?lines (Suc 0)))"
    using s by (simp add: sim_z20_def MachineState_init_def)
  have g: "st_z (state (sim_before ?cv ?lines (Suc 0))) = real (nat_of_digits ''20'')"
    using s by (simp add: n sim_z20_def)
  have h: "z_safe ?cv \<le> real (nat_of_digits ''20'')"
    by (simp add: n GCodeConverter_init_def)
  note t = zero_displacement_conversion [OF a b c d e f g h]
  have z: "st_z (state sim_z20) = 20" and tt: "total_time_seconds (state sim_z20) = 6 / 25"
    by (simp_all add: sim_z20_def MachineState_init_def)
  from t b1 s have "converted_at ?cv ?lines (Suc 0)
      \<and> output_lines (convert_lines ?cv ?lines) ! Suc 0 = ''G0 Z'' @ ''20'' @ [newline]
      \<and> ls_conversions (before_line ?cv ?lines (Suc (Suc 0)))
          = [\<lparr>cv_line_num = 2, cv_original = ''G1 Z20'', cv_converted = ''G0 Z20'',
              cv_z_position = 20\<rparr>]
      \<and> move_history (sim_before ?cv ?lines (Suc (Suc 0)))
          = move_history (sim_before ?cv ?lines (Suc 0))
      \<and> total_time_seconds (state (sim_before ?cv ?lines (Suc (Suc 0)))) = 6 / 25"
    by (simp add: z tt)
  then show ?thesis by (simp add: with_nl_def numeral_2_eq_2)
qed

end
